theory Spec2Isabelle
  imports Main
begin

section \<open>Python text operations used by the script\<close>

text \<open>
  Text is modelled as \<open>string\<close>: a list of characters with code points below 256.
  Interface names, addresses, WireGuard keys and the output of the \<open>wg\<close> tool are ASCII,
  so decoding and encoding (\<open>.decode()\<close>, \<open>.encode()\<close>) are the identity on them.
\<close>

definition tab :: char where
  "tab = CHR 0x09"

definition nl :: char where
  "nl = CHR 0x0A"

definition whitespace :: "char list" where
  \<comment> \<open>the characters below 256 for which Python's \<open>str.isspace\<close> holds\<close>
  "whitespace = [CHR 0x09, CHR 0x0A, CHR 0x0B, CHR 0x0C, CHR 0x0D,
                 CHR 0x1C, CHR 0x1D, CHR 0x1E, CHR 0x1F, CHR 0x20, CHR 0x85, CHR 0xA0]"

definition isspace :: "char \<Rightarrow> bool" where
  "isspace c = (c \<in> set whitespace)"

definition strip :: "string \<Rightarrow> string" where
  \<comment> \<open>\<open>s.strip()\<close>: leading and trailing whitespace removed\<close>
  "strip s = rev (dropWhile isspace (rev (dropWhile isspace s)))"

fun split_on :: "char \<Rightarrow> string \<Rightarrow> string list" where
  \<comment> \<open>\<open>s.split(sep)\<close> for a one-character separator: empty fields are kept\<close>
  "split_on sep [] = [[]]"
| "split_on sep (c # cs) =
     (if c = sep then [] # split_on sep cs
      else (case split_on sep cs of
              [] \<Rightarrow> [[c]]
            | f # fs \<Rightarrow> (c # f) # fs))"

fun split_scan :: "string \<Rightarrow> string \<Rightarrow> string list" where
  \<comment> \<open>the scan behind \<open>s.split()\<close>; the first argument is the word read so far\<close>
  "split_scan cur [] = (if cur = [] then [] else [cur])"
| "split_scan cur (c # cs) =
     (if isspace c then (if cur = [] then split_scan [] cs else cur # split_scan [] cs)
      else split_scan (cur @ [c]) cs)"

definition split_ws :: "string \<Rightarrow> string list" where
  \<comment> \<open>\<open>s.split()\<close>: the maximal runs of characters that are not whitespace\<close>
  "split_ws s = split_scan [] s"

definition token :: "string \<Rightarrow> bool" where
  \<comment> \<open>a string that \<open>split()\<close> keeps whole: not empty, no whitespace\<close>
  "token s = (s \<noteq> [] \<and> (\<forall>c \<in> set s. \<not> isspace c))"


section \<open>Errors\<close>

datatype error =
    CalledProcessError nat
  | FileNotFoundError
  | OSError
  | IndexError
  | DataOverflowError
  | SMTPConnectError
  | SMTPAuthenticationError
  | SMTPRecipientsRefused

definition index :: "'a list \<Rightarrow> nat \<Rightarrow> error + 'a" where
  \<comment> \<open>\<open>xs[i]\<close> for a literal index \<open>i \<ge> 0\<close>\<close>
  "index xs i = (if i < length xs then Inr (xs ! i) else Inl IndexError)"

fun comprehension :: "('a \<Rightarrow> error + 'b) \<Rightarrow> 'a list \<Rightarrow> error + 'b list" where
  \<comment> \<open>\<open>[f(x) for x in xs]\<close>, left to right; the first exception ends it\<close>
  "comprehension f [] = Inr []"
| "comprehension f (x # xs) =
     (case f x of
        Inl e \<Rightarrow> Inl e
      | Inr y \<Rightarrow> (case comprehension f xs of Inl e \<Rightarrow> Inl e | Inr ys \<Rightarrow> Inr (y # ys)))"

definition parse_peers :: "string \<Rightarrow> error + string list" where
  \<comment> \<open>line 89 of \<open>list_peers\<close>\<close>
  "parse_peers output =
     comprehension (\<lambda>line. index (split_on tab line) 1) (split_on nl (strip output))"

section \<open>The host the script runs on\<close>

text \<open>
  Everything the script reaches outside itself is a field of \<open>world\<close>: the file system,
  the \<open>wg\<close> key tools, the privileged control surface (\<open>sudo wg set\<close>, \<open>sudo wg show\<close>),
  the QR library and the SMTP server. Fields that are functions or queues are what those
  collaborators would answer; fields ending in \<open>_log\<close> and \<open>outbox\<close> record what the
  script asked of them, in order.
  \<^item> \<open>files\<close>: the text of every file that exists; \<open>writable\<close>: the paths that can be
    opened for writing.
  \<^item> \<open>genkey_queue\<close>: the standard output of the coming runs of \<open>wg genkey\<close>, \<open>None\<close>
    for a run that exits non-zero (as does a run on an empty queue); \<open>pubkey_of\<close>: the
    standard output of \<open>wg pubkey\<close> for a given standard input, \<open>None\<close> when it exits
    non-zero.
  \<^item> \<open>sudo_ok\<close>: whether \<open>sudo\<close> lets the command run; \<open>ifaces\<close>: for every interface
    that exists, its peers in order, each a public key with its allowed addresses;
    \<open>show_format\<close>: how \<open>wg show <interface> peers\<close> prints a list of keys.
  \<^item> \<open>cmd_log\<close>: the argument vector of every process run.
  \<^item> \<open>qr_png\<close>: the image the QR library renders for a text, \<open>None\<close> when the text is
    too long for a code; \<open>qr_log\<close>: the texts handed to the encoder.
  \<^item> \<open>smtp_up\<close>: whether the server can be reached and accepts STARTTLS;
    \<open>smtp_account\<close>: the logins it accepts; \<open>smtp_relays\<close>: the recipients it accepts;
    \<open>smtp_login_log\<close>: the logins attempted; \<open>outbox\<close>: the messages accepted, each with
    its envelope sender and recipient.
  The exit of a failed process is \<open>CalledProcessError\<close>; a tool that is not installed is
  not modelled.
\<close>

record message =
  msg_subject :: string
  msg_from :: string
  msg_to :: string
  msg_text :: string
  msg_image :: string

record world =
  files :: "string \<rightharpoonup> string"
  writable :: "string \<Rightarrow> bool"
  genkey_queue :: "string option list"
  pubkey_of :: "string \<Rightarrow> string option"
  sudo_ok :: bool
  ifaces :: "string \<rightharpoonup> (string \<times> string) list"
  show_format :: "string list \<Rightarrow> string"
  cmd_log :: "string list list"
  qr_png :: "string \<Rightarrow> string option"
  qr_log :: "string list"
  smtp_up :: bool
  smtp_account :: "string \<Rightarrow> string \<Rightarrow> bool"
  smtp_relays :: "string \<Rightarrow> bool"
  smtp_login_log :: "(string \<times> string) list"
  outbox :: "(string \<times> string \<times> message) list"

type_synonym 'a io = "world \<Rightarrow> (error + 'a) \<times> world"

definition bind :: "'a io \<Rightarrow> ('a \<Rightarrow> 'b io) \<Rightarrow> 'b io" where
  \<comment> \<open>one statement after another; an exception skips the rest and keeps the effects so far\<close>
  "bind m f = (\<lambda>w. case m w of (Inl e, w') \<Rightarrow> (Inl e, w') | (Inr x, w') \<Rightarrow> f x w')"

definition return :: "'a \<Rightarrow> 'a io" where
  "return x = (\<lambda>w. (Inr x, w))"

subsection \<open>Files\<close>

definition read_file :: "string \<Rightarrow> string io" where
  \<comment> \<open>\<open>with open(path, "r") as f: f.read()\<close>\<close>
  "read_file path = (\<lambda>w. case files w path of
       None \<Rightarrow> (Inl FileNotFoundError, w)
     | Some content \<Rightarrow> (Inr content, w))"

definition write_file :: "string \<Rightarrow> string \<Rightarrow> unit io" where
  \<comment> \<open>\<open>with open(path, "w") as f: f.write(content)\<close>: creates the file or replaces its content\<close>
  "write_file path content = (\<lambda>w.
     if writable w path then (Inr (), w\<lparr>files := (files w)(path \<mapsto> content)\<rparr>)
     else (Inl OSError, w))"

subsection \<open>The privileged control surface\<close>

text \<open>
  Modelled from the spec: the \<open>wg\<close> executable is an external collaborator, absent from the
  repository. Section 4.2 of the specification gives what it does with the three commands
  the script issues. Authorizing a public key that is already present updates its allowed
  address in place, otherwise the peer is appended; removing an absent peer is a no-op that
  succeeds; listing gives the keys in the order held. Each command exits non-zero when the
  interface does not exist, and any other command line is refused. How the listing is printed
  is left to the field \<open>show_format\<close>.
\<close>

fun authorize :: "string \<Rightarrow> string \<Rightarrow> (string \<times> string) list \<Rightarrow> (string \<times> string) list" where
  "authorize pk a [] = [(pk, a)]"
| "authorize pk a ((k, v) # ps) = (if k = pk then (k, a) # ps else (k, v) # authorize pk a ps)"

definition revoke :: "string \<Rightarrow> (string \<times> string) list \<Rightarrow> (string \<times> string) list" where
  "revoke pk ps = filter (\<lambda>p. fst p \<noteq> pk) ps"

definition wg :: "string list \<Rightarrow> world \<Rightarrow> (nat \<times> string) \<times> world" where
  "wg args w =
     (if length args = 8 \<and> args ! 0 = ''set'' \<and> args ! 2 = ''peer'' \<and> args ! 4 = ''allowed-ips''
         \<and> args ! 6 = ''--private-key'' then
        (case ifaces w (args ! 1) of
           None \<Rightarrow> ((1, []), w)
         | Some ps \<Rightarrow>
             ((0, []), w\<lparr>ifaces := (ifaces w)(args ! 1 \<mapsto> authorize (args ! 3) (args ! 5) ps)\<rparr>))
      else if length args = 5 \<and> args ! 0 = ''set'' \<and> args ! 2 = ''peer'' \<and> args ! 4 = ''remove'' then
        (case ifaces w (args ! 1) of
           None \<Rightarrow> ((1, []), w)
         | Some ps \<Rightarrow> ((0, []), w\<lparr>ifaces := (ifaces w)(args ! 1 \<mapsto> revoke (args ! 3) ps)\<rparr>))
      else if length args = 3 \<and> args ! 0 = ''show'' \<and> args ! 2 = ''peers'' then
        (case ifaces w (args ! 1) of
           None \<Rightarrow> ((1, []), w)
         | Some ps \<Rightarrow> ((0, show_format w (map fst ps)), w))
      else ((1, []), w))"

subsection \<open>Running processes\<close>

definition run_process :: "string list \<Rightarrow> string \<Rightarrow> world \<Rightarrow> (nat \<times> string) \<times> world" where
  \<comment> \<open>exit status and standard output of one child process, given its standard input\<close>
  "run_process argv stdin w =
     (let w1 = w\<lparr>cmd_log := cmd_log w @ [argv]\<rparr> in
      if argv = [''wg'', ''genkey''] then
        (case genkey_queue w of
           [] \<Rightarrow> ((1, []), w1)
         | None # q \<Rightarrow> ((1, []), w1\<lparr>genkey_queue := q\<rparr>)
         | Some k # q \<Rightarrow> ((0, k), w1\<lparr>genkey_queue := q\<rparr>))
      else if argv = [''wg'', ''pubkey''] then
        (case pubkey_of w stdin of
           None \<Rightarrow> ((1, []), w1)
         | Some k \<Rightarrow> ((0, k), w1))
      else if take 2 argv = [''sudo'', ''wg''] then
        (if sudo_ok w then wg (drop 2 argv) w1 else ((1, []), w1))
      else ((127, []), w1))"

definition check_output :: "string list \<Rightarrow> string \<Rightarrow> string io" where
  \<comment> \<open>\<open>subprocess.check_output(argv, input=stdin).decode()\<close>\<close>
  "check_output argv stdin = (\<lambda>w. case run_process argv stdin w of
       ((status, out), w') \<Rightarrow>
         if status = 0 then (Inr out, w') else (Inl (CalledProcessError status), w'))"

definition run_check :: "string list \<Rightarrow> unit io" where
  \<comment> \<open>\<open>subprocess.run(argv, check=True)\<close>\<close>
  "run_check argv = (\<lambda>w. case run_process argv [] w of
       ((status, out), w') \<Rightarrow>
         if status = 0 then (Inr (), w') else (Inl (CalledProcessError status), w'))"

subsection \<open>The QR library and the mail server\<close>

definition qr_make :: "string \<Rightarrow> string io" where
  \<comment> \<open>\<open>qrcode.make(data)\<close>, and \<open>QRCode.add_data(data)\<close> followed by \<open>make(fit=True)\<close>:
      the image, or \<open>DataOverflowError\<close> when the text does not fit the largest code\<close>
  "qr_make data = (\<lambda>w.
     let w1 = w\<lparr>qr_log := qr_log w @ [data]\<rparr> in
     case qr_png w data of
       None \<Rightarrow> (Inl DataOverflowError, w1)
     | Some img \<Rightarrow> (Inr img, w1))"

definition smtp_connect :: "unit io" where
  \<comment> \<open>\<open>smtplib.SMTP(host, port)\<close>, \<open>ehlo()\<close>, \<open>starttls()\<close>\<close>
  "smtp_connect = (\<lambda>w. if smtp_up w then (Inr (), w) else (Inl SMTPConnectError, w))"

definition smtp_login :: "string \<Rightarrow> string \<Rightarrow> unit io" where
  "smtp_login user password = (\<lambda>w.
     let w1 = w\<lparr>smtp_login_log := smtp_login_log w @ [(user, password)]\<rparr> in
     if smtp_account w user password then (Inr (), w1) else (Inl SMTPAuthenticationError, w1))"

definition smtp_sendmail :: "string \<Rightarrow> string \<Rightarrow> message \<Rightarrow> unit io" where
  "smtp_sendmail from_addr to_addr msg = (\<lambda>w.
     if smtp_relays w to_addr then (Inr (), w\<lparr>outbox := outbox w @ [(from_addr, to_addr, msg)]\<rparr>)
     else (Inl SMTPRecipientsRefused, w))"

section \<open>The script\<close>

definition given :: "string option \<Rightarrow> string option" where
  \<comment> \<open>an optional argument under Python's truth test: \<open>None\<close> and \<open>""\<close> are both false\<close>
  "given x = (case x of None \<Rightarrow> None | Some s \<Rightarrow> if s = [] then None else Some s)"

subsection \<open>\<open>add_peer\<close>\<close>

definition provision :: "string option \<Rightarrow> string \<Rightarrow> (string \<times> string) io" where
  \<comment> \<open>lines 15 to 25: the private and the public key \<open>add_peer\<close> goes on with\<close>
  "provision pubkey private_key_file =
     (case given pubkey of
        None \<Rightarrow>
          bind (check_output [''wg'', ''genkey''] []) (\<lambda>out1.
          let privkey = strip out1 in
          bind (check_output [''wg'', ''pubkey''] privkey) (\<lambda>out2.
          let pubkey' = strip out2 in
          bind (write_file private_key_file privkey) (\<lambda>_.
          return (privkey, pubkey'))))
      | Some pubkey' \<Rightarrow>
          bind (read_file private_key_file) (\<lambda>content.
          return (strip content, pubkey')))"

definition authorize_cmd :: "string \<Rightarrow> string \<Rightarrow> string \<Rightarrow> string \<Rightarrow> string" where
  \<comment> \<open>lines 28 and 29\<close>
  "authorize_cmd wg_interface pubkey ip_address private_key_file =
     ''sudo wg set '' @ wg_interface @ '' peer '' @ pubkey @ '' allowed-ips '' @ ip_address @ ''/24''
       @ '' --private-key '' @ private_key_file"

definition qr_data_email :: "string \<Rightarrow> string \<Rightarrow> string \<Rightarrow> string \<Rightarrow> string" where
  \<comment> \<open>lines 35 to 39\<close>
  "qr_data_email wg_interface privkey pubkey ip_address =
     ''interface '' @ wg_interface @ [nl]
       @ ''private_key '' @ privkey @ [nl]
       @ ''peer '' @ pubkey @ [nl]
       @ ''allowed_ips '' @ ip_address @ ''/32'' @ [nl]
       @ ''endpoint <server_ip_address>:51820'' @ [nl]"

definition qr_data_local :: "string \<Rightarrow> string \<Rightarrow> string \<Rightarrow> string \<Rightarrow> string" where
  \<comment> \<open>lines 66 to 69\<close>
  "qr_data_local wg_interface privkey pubkey ip_address =
     ''interface '' @ wg_interface @ [nl]
       @ ''private_key '' @ privkey @ [nl]
       @ ''peer '' @ pubkey @ [nl]
       @ ''allowed_ips '' @ ip_address @ ''/32'' @ [nl]"

definition image_filename :: "string option \<Rightarrow> string \<Rightarrow> string" where
  \<comment> \<open>lines 49 to 52\<close>
  "image_filename output_dir pubkey =
     (case given output_dir of
        Some dir \<Rightarrow> dir @ ''/wg_client_'' @ take 8 pubkey @ ''.png''
      | None \<Rightarrow> ''wg_client_'' @ take 8 pubkey @ ''.png'')"

definition send_profile ::
  "string \<Rightarrow> string \<Rightarrow> string \<Rightarrow> string \<Rightarrow> string option \<Rightarrow> string \<Rightarrow> unit io" where
  \<comment> \<open>lines 35 to 63: the branch taken when a recipient is given\<close>
  "send_profile wg_interface privkey pubkey ip_address output_dir email =
     (let qr_data = qr_data_email wg_interface privkey pubkey ip_address in
      bind (qr_make qr_data) (\<lambda>img.
      let filename = image_filename output_dir pubkey in
      bind (write_file filename img) (\<lambda>_.
      bind (read_file filename) (\<lambda>image_bytes.
      let msg = \<lparr>msg_subject = ''WireGuard client configuration'',
                 msg_from = ''your_email@example.com'',
                 msg_to = email,
                 msg_text = qr_data,
                 msg_image = image_bytes\<rparr> in
      bind smtp_connect (\<lambda>_.
      bind (smtp_login ''your_email@example.com'' ''your_email_password'') (\<lambda>_.
      smtp_sendmail ''your_email@example.com'' email msg))))))"

definition show_profile :: "string \<Rightarrow> string \<Rightarrow> string \<Rightarrow> string \<Rightarrow> unit io" where
  \<comment> \<open>lines 66 to 73: the branch taken without a recipient\<close>
  "show_profile wg_interface privkey pubkey ip_address =
     bind (qr_make (qr_data_local wg_interface privkey pubkey ip_address)) (\<lambda>img. return ())"

definition add_peer ::
  "string \<Rightarrow> string \<Rightarrow> string \<Rightarrow> string option \<Rightarrow> string option \<Rightarrow> string option \<Rightarrow> unit io" where
  "add_peer ip_address private_key_file wg_interface pubkey output_dir email =
     bind (provision pubkey private_key_file) (\<lambda>(privkey, pubkey').
     bind (run_check (split_ws (authorize_cmd wg_interface pubkey' ip_address private_key_file))) (\<lambda>_.
     case given email of
       Some recipient \<Rightarrow> send_profile wg_interface privkey pubkey' ip_address output_dir recipient
     | None \<Rightarrow> show_profile wg_interface privkey pubkey' ip_address))"

subsection \<open>\<open>remove_peer\<close>, \<open>list_peers\<close>, \<open>save_peers\<close>\<close>

definition remove_peer :: "string \<Rightarrow> string \<Rightarrow> unit io" where
  "remove_peer pubkey wg_interface =
     run_check (split_ws (''sudo wg set '' @ wg_interface @ '' peer '' @ pubkey @ '' remove''))"

definition list_peers :: "string \<Rightarrow> string list io" where
  "list_peers wg_interface =
     bind (check_output (split_ws (''sudo wg show '' @ wg_interface @ '' peers'')) []) (\<lambda>output.
     (\<lambda>w. (parse_peers output, w)))"

definition hex4 :: "nat \<Rightarrow> string" where
  \<comment> \<open>\<open>'{0:04x}'.format(n)\<close> for \<open>n < 65536\<close>\<close>
  "hex4 n = map (\<lambda>d. ''0123456789abcdef'' ! d)
     [n div 4096 mod 16, n div 256 mod 16, n div 16 mod 16, n mod 16]"

definition json_char :: "char \<Rightarrow> string" where
  \<comment> \<open>one character inside a JSON string, as \<open>json.dump\<close> writes it (\<open>ensure_ascii=True\<close>)\<close>
  "json_char c =
     (if c = CHR 0x22 then [CHR 0x5C, CHR 0x22]
      else if c = CHR 0x5C then [CHR 0x5C, CHR 0x5C]
      else if c = CHR 0x0A then [CHR 0x5C, CHR ''n'']
      else if c = CHR 0x0D then [CHR 0x5C, CHR ''r'']
      else if c = CHR 0x09 then [CHR 0x5C, CHR ''t'']
      else if c = CHR 0x08 then [CHR 0x5C, CHR ''b'']
      else if c = CHR 0x0C then [CHR 0x5C, CHR ''f'']
      else if 32 \<le> (of_char c :: nat) \<and> (of_char c :: nat) \<le> 126 then [c]
      else [CHR 0x5C, CHR ''u''] @ hex4 (of_char c))"

definition json_string :: "string \<Rightarrow> string" where
  "json_string s = [CHR 0x22] @ concat (map json_char s) @ [CHR 0x22]"

fun join :: "string \<Rightarrow> string list \<Rightarrow> string" where
  "join sep [] = []"
| "join sep [x] = x"
| "join sep (x # y # ys) = x @ sep @ join sep (y # ys)"

definition json_dumps :: "string list \<Rightarrow> string" where
  \<comment> \<open>\<open>json.dump\<close> of a list of strings\<close>
  "json_dumps xs = ''['' @ join '', '' (map json_string xs) @ '']''"

definition save_peers :: "string \<Rightarrow> string \<Rightarrow> unit io" where
  "save_peers wg_interface filename =
     bind (list_peers wg_interface) (\<lambda>peer_list.
     write_file filename (json_dumps peer_list))"

subsection \<open>\<open>main\<close>\<close>

text \<open>
  \<open>parser.parse_args()\<close> gives a namespace whose \<open>command\<close> is one of the four
  subcommands, with that subcommand's positional arguments, in the order the parser
  declares them.
\<close>

datatype args =
    Add string string string string
      \<comment> \<open>\<open>pubkey\<close>, \<open>ip_address\<close>, \<open>private_key_file\<close>, \<open>wg_interface\<close>\<close>
  | Remove string string
      \<comment> \<open>\<open>pubkey\<close>, \<open>wg_interface\<close>\<close>
  | List string
      \<comment> \<open>\<open>wg_interface\<close>\<close>
  | Save string string
      \<comment> \<open>\<open>wg_interface\<close>, \<open>filename\<close>\<close>

fun main :: "args \<Rightarrow> unit io" where
  \<comment> \<open>lines 133 to 138; the positional call of line 134 binds \<open>args.pubkey\<close> to the parameter
      \<open>ip_address\<close>, \<open>args.ip_address\<close> to \<open>private_key_file\<close>, \<open>args.private_key_file\<close> to
      \<open>wg_interface\<close> and \<open>args.wg_interface\<close> to \<open>pubkey\<close>; line 138 assigns the builtin
      \<open>list\<close> to a local variable; there is no branch for \<open>save\<close>\<close>
  "main (Add pk ip pkf ifc) = add_peer pk ip pkf (Some ifc) None None"
| "main (Remove pk ifc) = remove_peer pk ifc"
| "main (List ifc) = return ()"
| "main (Save ifc fname) = return ()"

definition exit_status :: "(error + unit) \<times> world \<Rightarrow> nat" where
  \<comment> \<open>the interpreter exits with 1 on an uncaught exception and with 0 otherwise\<close>
  "exit_status r = (case fst r of Inl e \<Rightarrow> 1 | Inr u \<Rightarrow> 0)"

section \<open>Notions used in the statements\<close>


definition one_per_line :: "string list \<Rightarrow> string" where
  \<comment> \<open>a listing with each key on a line of its own\<close>
  "one_per_line ks = concat (map (\<lambda>k. k @ [nl]) ks)"

definition host0 :: world where
  \<comment> \<open>a host with an interface \<open>wg0\<close> without peers; the key tool will generate \<open>PRIV\<close>,
      whose public key is \<open>PUB\<close>; the mail server accepts no login\<close>
  "host0 = \<lparr>files = Map.empty, writable = (\<lambda>path. True),
            genkey_queue = [Some ''PRIV\<newline>''],
            pubkey_of = (\<lambda>k. if k = ''PRIV'' then Some ''PUB\<newline>'' else None),
            sudo_ok = True, ifaces = [''wg0'' \<mapsto> []], show_format = one_per_line,
            cmd_log = [], qr_png = (\<lambda>text. Some (''PNG:'' @ text)), qr_log = [],
            smtp_up = True, smtp_account = (\<lambda>user password. False),
            smtp_relays = (\<lambda>recipient. True), smtp_login_log = [], outbox = []\<rparr>"

definition spaceless :: "string \<Rightarrow> bool" where
  "spaceless s = (\<forall>c \<in> set s. \<not> isspace c)"

definition sender :: string where
  \<comment> \<open>the address written on lines 43, 61 and 63\<close>
  "sender = ''your_email@example.com''"

definition sender_password :: string where
  \<comment> \<open>the password written on line 62\<close>
  "sender_password = ''your_email_password''"

definition host_alice :: world where
  \<comment> \<open>a host whose operator holds the mail account of Alice\<close>
  "host_alice = host0\<lparr>smtp_account :=
     (\<lambda>user password. user = ''alice@example.org'' \<and> password = ''alice-secret'')\<rparr>"

definition host_bob :: world where
  \<comment> \<open>a host whose operator holds the mail account of Bob\<close>
  "host_bob = host0\<lparr>smtp_account :=
     (\<lambda>user password. user = ''bob@example.org'' \<and> password = ''bob-secret'')\<rparr>"

definition host_open :: world where
  \<comment> \<open>a host whose mail server accepts the login written in the script\<close>
  "host_open = host0\<lparr>smtp_account :=
     (\<lambda>user password. user = ''your_email@example.com'' \<and> password = ''your_email_password'')\<rparr>"

definition host_key :: world where
  \<comment> \<open>a host that stores a private key followed by a newline, as \<open>wg genkey > file\<close> leaves it\<close>
  "host_key = host0\<lparr>files := [''/tmp/peerA.key'' \<mapsto> ''PRIV\<newline>'']\<rparr>"

definition host2 :: world where
  \<comment> \<open>\<open>host0\<close> with two peers authorized on \<open>wg0\<close>\<close>
  "host2 = host0\<lparr>ifaces := [''wg0'' \<mapsto> [(''PK1'', ''10.0.0.1/24''), (''PK2'', ''10.0.0.2/24'')]]\<rparr>"

section \<open>Splitting text\<close>

lemma split_on_not_Nil: "split_on sep s \<noteq> []"
  by (induction s) (auto split: list.splits)


lemma split_on_sep: "sep \<in> set s \<Longrightarrow> 2 \<le> length (split_on sep s)"
proof (induction s)
  case Nil
  then show ?case by simp
next
  case (Cons c s)
  show ?case
  proof (cases "c = sep")
    case True
    have "split_on sep s \<noteq> []" by (rule split_on_not_Nil)
    then have "1 \<le> length (split_on sep s)" by (cases "split_on sep s") simp_all
    with True show ?thesis by simp
  next
    case False
    with Cons show ?thesis by (cases "split_on sep s") auto
  qed
qed



section \<open>The peer-list parser\<close>
















lemmas text_eval = strip_def isspace_def whitespace_def nl_def tab_def split_ws_def

lemmas io_eval = bind_def return_def check_output_def run_check_def run_process_def
  wg_def read_file_def write_file_def qr_make_def smtp_connect_def smtp_login_def
  smtp_sendmail_def given_def Let_def

lemmas script_eval = main.simps add_peer_def provision_def authorize_cmd_def send_profile_def
  show_profile_def qr_data_email_def qr_data_local_def image_filename_def remove_peer_def
  list_peers_def save_peers_def

lemmas host_eval = host0_def host2_def host_alice_def host_bob_def host_open_def host_key_def
  one_per_line_def



section \<open>Command lines\<close>

lemma split_scan_word:
  "spaceless w \<Longrightarrow> split_scan cur (w @ r) = split_scan (cur @ w) r"
  by (induction w arbitrary: cur) (simp_all add: spaceless_def)

lemma split_scan_last:
  "spaceless w \<Longrightarrow> cur @ w \<noteq> [] \<Longrightarrow> split_scan cur w = [cur @ w]"
  using split_scan_word [of w cur "[]"] by simp

lemma token_spaceless: "token s \<Longrightarrow> spaceless s"
  by (simp add: token_def spaceless_def)

lemma token_not_Nil: "token s \<Longrightarrow> s \<noteq> []"
  by (simp add: token_def)

lemma remove_argv:
  assumes "token pk" and "token i"
  shows "split_ws (''sudo wg set '' @ i @ '' peer '' @ pk @ '' remove'')
           = [''sudo'', ''wg'', ''set'', i, ''peer'', pk, ''remove'']"
  using assms
  by (simp add: split_ws_def isspace_def whitespace_def split_scan_word token_spaceless
      token_not_Nil)

lemma authorize_argv:
  assumes "token i" and "token pk" and "spaceless ip" and "token pkf"
  shows "split_ws (authorize_cmd i pk ip pkf)
           = [''sudo'', ''wg'', ''set'', i, ''peer'', pk, ''allowed-ips'', ip @ ''/24'',
              ''--private-key'', pkf]"
  using assms
  by (simp add: authorize_cmd_def split_ws_def isspace_def whitespace_def split_scan_word
      split_scan_last token_spaceless token_not_Nil)

section \<open>The control surface\<close>

lemma revoke_idem: "revoke pk (revoke pk ps) = revoke pk ps"
  by (simp add: revoke_def)

lemma revoke_absent: "pk \<notin> fst ` set ps \<Longrightarrow> revoke pk ps = ps"
  by (induction ps) (auto simp: revoke_def)

lemma authorize_member: "(pk, a) \<in> set (authorize pk a ps)"
  by (induction ps) auto

lemma remove_peer_run:
  assumes "token pk" and "token i" and "sudo_ok w" and "ifaces w i = Some ps"
  shows "remove_peer pk i w =
           (Inr (), w\<lparr>cmd_log := cmd_log w @ [[''sudo'', ''wg'', ''set'', i, ''peer'', pk, ''remove'']],
                      ifaces := (ifaces w)(i \<mapsto> revoke pk ps)\<rparr>)"
proof -
  have "remove_peer pk i w = run_check [''sudo'', ''wg'', ''set'', i, ''peer'', pk, ''remove''] w"
    unfolding remove_peer_def remove_argv [OF assms(1,2)] ..
  also have "\<dots> = (Inr (), w\<lparr>cmd_log := cmd_log w @ [[''sudo'', ''wg'', ''set'', i, ''peer'', pk, ''remove'']],
                      ifaces := (ifaces w)(i \<mapsto> revoke pk ps)\<rparr>)"
    using assms(3,4) by (simp add: run_check_def run_process_def wg_def)
  finally show ?thesis .
qed

lemma run_check_log:
  "run_check argv w = (r, w') \<Longrightarrow> cmd_log w' = cmd_log w @ [argv]"
  by (auto simp: run_check_def run_process_def wg_def Let_def
      split: if_splits list.splits option.splits prod.splits)

lemma authorize_run:
  assumes "run_check [''sudo'', ''wg'', ''set'', i, ''peer'', pk, ''allowed-ips'', a,
                      ''--private-key'', pkf] w = (Inr (), w')"
  shows "\<exists>ps. ifaces w i = Some ps \<and> ifaces w' = (ifaces w)(i \<mapsto> authorize pk a ps)"
  using assms
  by (auto simp: run_check_def run_process_def wg_def Let_def split: if_splits option.splits)

section \<open>Delivery\<close>

lemma send_profile_frame:
  assumes "send_profile i privkey pk ip od e w = (r, w')"
  shows "ifaces w' = ifaces w \<and> cmd_log w' = cmd_log w"
  using assms
  by (auto simp: send_profile_def bind_def qr_make_def write_file_def read_file_def
      smtp_connect_def smtp_login_def smtp_sendmail_def Let_def split: option.splits if_splits)

lemma send_profile_logins:
  assumes "send_profile i privkey pk ip od e w = (r, w')"
  shows "smtp_login_log w' = smtp_login_log w
         \<or> smtp_login_log w' = smtp_login_log w @ [(sender, sender_password)]"
  using assms
  by (auto simp: send_profile_def bind_def qr_make_def write_file_def read_file_def
      smtp_connect_def smtp_login_def smtp_sendmail_def Let_def sender_def sender_password_def
      split: option.splits if_splits)

lemma send_profile_success:
  assumes "send_profile i privkey pk ip od e w = (Inr u, w')"
  shows "smtp_login_log w' = smtp_login_log w @ [(sender, sender_password)]
         \<and> (\<exists>m. outbox w' = outbox w @ [(sender, e, m)] \<and> msg_from m = sender)"
  using assms
  by (auto simp: send_profile_def bind_def qr_make_def write_file_def read_file_def
      smtp_connect_def smtp_login_def smtp_sendmail_def Let_def sender_def sender_password_def
      split: option.splits if_splits)

section \<open>The claims\<close>

text \<open>
  C6. Removing a peer twice in a row: on a host where the control surface can be reached
  and the interface exists, both calls of the \<open>remove\<close> command return without an error
  and exit with status 0, the second leaves the peers of every interface as the first left
  them, and when the key was never authorized the first call already changes no interface.
\<close>

theorem remove_twice:
  assumes "token pk" and "token i" and "sudo_ok w" and "ifaces w i = Some ps"
  shows "\<exists>w1 w2. main (Remove pk i) w = (Inr (), w1)
          \<and> main (Remove pk i) w1 = (Inr (), w2)
          \<and> exit_status (main (Remove pk i) w) = 0
          \<and> exit_status (main (Remove pk i) w1) = 0
          \<and> ifaces w1 = (ifaces w)(i \<mapsto> revoke pk ps)
          \<and> ifaces w2 = ifaces w1
          \<and> (pk \<notin> fst ` set ps \<longrightarrow> ifaces w1 = ifaces w)"
proof -
  let ?argv = "[''sudo'', ''wg'', ''set'', i, ''peer'', pk, ''remove'']"
  let ?w1 = "w\<lparr>cmd_log := cmd_log w @ [?argv], ifaces := (ifaces w)(i \<mapsto> revoke pk ps)\<rparr>"
  let ?w2 = "?w1\<lparr>cmd_log := cmd_log ?w1 @ [?argv],
                  ifaces := (ifaces ?w1)(i \<mapsto> revoke pk (revoke pk ps))\<rparr>"
  have first: "main (Remove pk i) w = (Inr (), ?w1)"
    using assms by (simp add: remove_peer_run)
  have "sudo_ok ?w1" and "ifaces ?w1 i = Some (revoke pk ps)"
    using assms(3) by simp_all
  with assms(1,2) have "remove_peer pk i ?w1 = (Inr (), ?w2)"
    by (rule remove_peer_run)
  then have second: "main (Remove pk i) ?w1 = (Inr (), ?w2)" by simp
  have same: "ifaces ?w2 = ifaces ?w1" by (simp add: revoke_idem)
  have absent: "pk \<notin> fst ` set ps \<longrightarrow> ifaces ?w1 = ifaces w"
    using assms(4) by (auto simp: revoke_absent map_upd_triv)
  have "exit_status (main (Remove pk i) w) = 0" and "exit_status (main (Remove pk i) ?w1) = 0"
    unfolding first second by (simp_all add: exit_status_def)
  with first second same absent show ?thesis
    by (intro exI [of _ ?w1] exI [of _ ?w2]) simp
qed

theorem remove_twice_witness:
  "token ''nonexistentPK'' \<and> token ''wg0'' \<and> sudo_ok host2
   \<and> ''nonexistentPK'' \<notin> fst ` set [(''PK1'', ''10.0.0.1/24''), (''PK2'', ''10.0.0.2/24'')]
   \<and> exit_status (main (Remove ''nonexistentPK'' ''wg0'') host2) = 0
   \<and> ifaces (snd (main (Remove ''nonexistentPK'' ''wg0'') host2)) = ifaces host2
   \<and> exit_status (main (Remove ''nonexistentPK'' ''wg0'')
         (snd (main (Remove ''nonexistentPK'' ''wg0'') host2))) = 0"
proof -
  have t1: "token ''nonexistentPK''" and t2: "token ''wg0''"
    by (simp_all add: token_def isspace_def whitespace_def)
  have s: "sudo_ok host2" by (simp add: host_eval)
  have i: "ifaces host2 ''wg0'' = Some [(''PK1'', ''10.0.0.1/24''), (''PK2'', ''10.0.0.2/24'')]"
    by (simp add: host_eval)
  have a: "''nonexistentPK'' \<notin> fst ` set [(''PK1'', ''10.0.0.1/24''), (''PK2'', ''10.0.0.2/24'')]"
    by simp
  from remove_twice [OF t1 t2 s i] a obtain w1 w2 where
    r1: "main (Remove ''nonexistentPK'' ''wg0'') host2 = (Inr (), w1)"
    and r2: "main (Remove ''nonexistentPK'' ''wg0'') w1 = (Inr (), w2)"
    and e1: "exit_status (main (Remove ''nonexistentPK'' ''wg0'') host2) = 0"
    and e2: "exit_status (main (Remove ''nonexistentPK'' ''wg0'') w1) = 0"
    and u: "ifaces w1 = ifaces host2"
    by blast
  from r1 have w1: "snd (main (Remove ''nonexistentPK'' ''wg0'') host2) = w1" by simp
  show ?thesis using t1 t2 s a e1 e2 u unfolding w1 by simp
qed

text \<open>
  C7. An \<open>add_peer\<close> call with a recipient, in which the keys were provisioned, the
  authorization command succeeded and the delivery then failed: the call ends with the
  delivery's error, the peers of every interface are those the authorization left, and the
  authorization command is the last process the call ran, so nothing revokes the peer. When
  the arguments are well-formed words, the peer is in the interface's list with its /24
  address.
\<close>

theorem delivery_failure_keeps_peer:
  assumes "given email = Some e"
    and "provision pubkey pkf w = (Inr (privkey, pk), w1)"
    and "run_check (split_ws (authorize_cmd i pk ip pkf)) w1 = (Inr (), w2)"
    and "send_profile i privkey pk ip od e w2 = (Inl err, w3)"
  shows "add_peer ip pkf i pubkey od email w = (Inl err, w3)
     \<and> ifaces w3 = ifaces w2
     \<and> cmd_log w3 = cmd_log w1 @ [split_ws (authorize_cmd i pk ip pkf)]
     \<and> (token i \<and> token pk \<and> spaceless ip \<and> token pkf \<longrightarrow>
          (\<exists>ps. ifaces w3 i = Some ps \<and> (pk, ip @ ''/24'') \<in> set ps))"
proof -
  have run: "add_peer ip pkf i pubkey od email w = (Inl err, w3)"
    using assms by (simp add: add_peer_def bind_def)
  have frame: "ifaces w3 = ifaces w2" and log: "cmd_log w3 = cmd_log w2"
    using send_profile_frame [OF assms(4)] by simp_all
  have log2: "cmd_log w2 = cmd_log w1 @ [split_ws (authorize_cmd i pk ip pkf)]"
    using assms(3) by (rule run_check_log)
  have peer: "\<exists>ps. ifaces w3 i = Some ps \<and> (pk, ip @ ''/24'') \<in> set ps"
    if wf: "token i \<and> token pk \<and> spaceless ip \<and> token pkf"
  proof -
    from wf have "split_ws (authorize_cmd i pk ip pkf)
        = [''sudo'', ''wg'', ''set'', i, ''peer'', pk, ''allowed-ips'', ip @ ''/24'',
           ''--private-key'', pkf]"
      by (simp add: authorize_argv)
    with assms(3) obtain ps where "ifaces w2 = (ifaces w1)(i \<mapsto> authorize pk (ip @ ''/24'') ps)"
      by (auto dest: authorize_run)
    with frame have "ifaces w3 i = Some (authorize pk (ip @ ''/24'') ps)" by simp
    then show ?thesis by (simp add: authorize_member)
  qed
  from run frame log log2 peer show ?thesis by simp
qed

theorem delivery_failure_keeps_peer_witness:
  "fst (add_peer ''10.0.0.5'' ''/tmp/peerA.key'' ''wg0'' None None (Some ''peer@example.org'') host0)
     = Inl SMTPAuthenticationError
   \<and> ifaces (snd (add_peer ''10.0.0.5'' ''/tmp/peerA.key'' ''wg0'' None None
        (Some ''peer@example.org'') host0)) ''wg0'' = Some [(''PUB'', ''10.0.0.5/24'')]
   \<and> cmd_log (snd (add_peer ''10.0.0.5'' ''/tmp/peerA.key'' ''wg0'' None None
        (Some ''peer@example.org'') host0))
       = [[''wg'', ''genkey''], [''wg'', ''pubkey''],
          [''sudo'', ''wg'', ''set'', ''wg0'', ''peer'', ''PUB'', ''allowed-ips'', ''10.0.0.5/24'',
           ''--private-key'', ''/tmp/peerA.key'']]"
proof -
  let ?w1 = "snd (provision None ''/tmp/peerA.key'' host0)"
  let ?argv = "split_ws (authorize_cmd ''wg0'' ''PUB'' ''10.0.0.5'' ''/tmp/peerA.key'')"
  let ?w2 = "snd (run_check ?argv ?w1)"
  let ?w3 = "snd (send_profile ''wg0'' ''PRIV'' ''PUB'' ''10.0.0.5'' None ''peer@example.org'' ?w2)"
  have g: "given (Some ''peer@example.org'') = Some ''peer@example.org''"
    by (simp add: given_def)
  have "fst (provision None ''/tmp/peerA.key'' host0) = Inr (''PRIV'', ''PUB'')"
    by (simp add: script_eval io_eval text_eval host_eval)
  then have p: "provision None ''/tmp/peerA.key'' host0 = (Inr (''PRIV'', ''PUB''), ?w1)"
    by (simp add: prod_eq_iff)
  have w1: "sudo_ok ?w1 \<and> ifaces ?w1 ''wg0'' = Some []
      \<and> cmd_log ?w1 = [[''wg'', ''genkey''], [''wg'', ''pubkey'']]"
    by (simp add: script_eval io_eval text_eval host_eval)
  have argv: "?argv = [''sudo'', ''wg'', ''set'', ''wg0'', ''peer'', ''PUB'', ''allowed-ips'',
      ''10.0.0.5/24'', ''--private-key'', ''/tmp/peerA.key'']"
    by (simp add: authorize_cmd_def text_eval)
  have "fst (run_check ?argv ?w1) = Inr ()"
    unfolding argv using w1 by (simp add: run_check_def run_process_def wg_def)
  then have a: "run_check ?argv ?w1 = (Inr (), ?w2)"
    by (simp add: prod_eq_iff)
  have w2i: "ifaces ?w2 ''wg0'' = Some [(''PUB'', ''10.0.0.5/24'')]"
    unfolding argv using w1 by (simp add: run_check_def run_process_def wg_def)
  have w2: "qr_png ?w2 = qr_png host0 \<and> writable ?w2 = writable host0 \<and> smtp_up ?w2
      \<and> smtp_account ?w2 = smtp_account host0"
    unfolding argv by (simp add: script_eval io_eval text_eval host_eval)
  have "fst (send_profile ''wg0'' ''PRIV'' ''PUB'' ''10.0.0.5'' None ''peer@example.org'' ?w2)
      = Inl SMTPAuthenticationError"
    using w2 by (simp add: send_profile_def bind_def qr_make_def write_file_def read_file_def
        smtp_connect_def smtp_login_def image_filename_def given_def Let_def host0_def)
  then have d: "send_profile ''wg0'' ''PRIV'' ''PUB'' ''10.0.0.5'' None ''peer@example.org'' ?w2
      = (Inl SMTPAuthenticationError, ?w3)"
    by (simp add: prod_eq_iff)
  from delivery_failure_keeps_peer [OF g p a d]
  have "add_peer ''10.0.0.5'' ''/tmp/peerA.key'' ''wg0'' None None (Some ''peer@example.org'') host0
      = (Inl SMTPAuthenticationError, ?w3)"
    and "ifaces ?w3 = ifaces ?w2" and "cmd_log ?w3 = cmd_log ?w1 @ [?argv]"
    by simp_all
  with w2i w1 argv show ?thesis by simp
qed

text \<open>
  The delivery logs in with the address and the password written in the script, whoever
  holds which mail account: on the host of Alice and on the host of Bob, with different
  peers and recipients, the login attempted is the same pair of constants.
\<close>

theorem delivery_credentials_counterexample:
  "smtp_account host_alice ''alice@example.org'' ''alice-secret''
   \<and> \<not> smtp_account host_bob ''alice@example.org'' ''alice-secret''
   \<and> smtp_login_log (snd (send_profile ''wg0'' ''PRIV'' ''PUB'' ''10.0.0.5'' None
         ''peer@example.org'' host_alice)) = [(''your_email@example.com'', ''your_email_password'')]
   \<and> smtp_login_log (snd (send_profile ''wg1'' ''PRIV2'' ''PUB2'' ''10.0.0.6'' (Some ''/out'')
         ''other@example.org'' host_bob)) = [(''your_email@example.com'', ''your_email_password'')]"
  by (simp add: script_eval io_eval host_eval)

text \<open>
  C9 (amended). Every delivery authenticates with the sender address and the password that
  are constants of the source, whatever its arguments and whatever the host: it attempts at
  most one login, with exactly that pair, and a delivery that succeeds has made that login
  and has sent one message whose envelope sender and \<open>From\<close> header are that address.
\<close>

theorem delivery_credentials_embedded:
  assumes "send_profile i privkey pk ip od e w = (r, w')"
  shows "(smtp_login_log w' = smtp_login_log w
          \<or> smtp_login_log w' = smtp_login_log w @ [(sender, sender_password)])
     \<and> (r = Inr () \<longrightarrow>
          smtp_login_log w' = smtp_login_log w @ [(sender, sender_password)]
          \<and> (\<exists>m. outbox w' = outbox w @ [(sender, e, m)] \<and> msg_from m = sender))"
  using send_profile_logins [OF assms] send_profile_success [of i privkey pk ip od e w _ w'] assms
  by blast

theorem delivery_credentials_embedded_witness:
  "fst (send_profile ''wg0'' ''PRIV'' ''PUB'' ''10.0.0.5'' None ''peer@example.org'' host_open)
     = Inr ()
   \<and> smtp_login_log (snd (send_profile ''wg0'' ''PRIV'' ''PUB'' ''10.0.0.5'' None
         ''peer@example.org'' host_open)) = [(''your_email@example.com'', ''your_email_password'')]
   \<and> (\<exists>m. outbox (snd (send_profile ''wg0'' ''PRIV'' ''PUB'' ''10.0.0.5'' None
         ''peer@example.org'' host_open))
          = [(''your_email@example.com'', ''peer@example.org'', m)]
        \<and> msg_from m = ''your_email@example.com'')"
proof -
  let ?run = "send_profile ''wg0'' ''PRIV'' ''PUB'' ''10.0.0.5'' None ''peer@example.org'' host_open"
  have ok: "fst ?run = Inr ()"
    by (simp add: script_eval io_eval host_eval)
  then have "?run = (Inr (), snd ?run)"
    by (simp add: prod_eq_iff)
  from delivery_credentials_embedded [OF this]
  have "smtp_login_log (snd ?run) = smtp_login_log host_open @ [(sender, sender_password)]
      \<and> (\<exists>m. outbox (snd ?run) = outbox host_open @ [(sender, ''peer@example.org'', m)]
           \<and> msg_from m = sender)"
    by simp
  moreover have "smtp_login_log host_open = []" and "outbox host_open = []"
    by (simp_all add: host_eval)
  ultimately show ?thesis using ok by (simp add: sender_def sender_password_def)
qed

text \<open>
  The private key \<open>add_peer\<close> goes on with is the stored text stripped: a file that holds
  the key followed by a newline does not give back its own content.
\<close>

theorem provision_reuse_counterexample:
  "files host_key ''/tmp/peerA.key'' = Some ''PRIV\<newline>''
   \<and> fst (provision (Some ''PUB'') ''/tmp/peerA.key'' host_key) \<noteq> Inr (''PRIV\<newline>'', ''PUB'')"
  by (simp add: script_eval io_eval text_eval host_eval)

text \<open>
  C4 (amended). For every non-empty public key \<open>pk\<close> and every storage reference whose
  file holds the text \<open>b\<close>, provisioning with the existing public key \<open>pk\<close> gives the
  pair whose public key is \<open>pk\<close> and whose private key is \<open>b\<close> with leading and trailing
  whitespace removed, and leaves the whole host, every file included, as it was.
\<close>

theorem provision_reuse:
  assumes "pk \<noteq> []" and "files w r = Some b"
  shows "provision (Some pk) r w = (Inr (strip b, pk), w)"
  using assms by (simp add: provision_def given_def bind_def return_def read_file_def)

theorem provision_reuse_witness:
  "provision (Some ''PUB'') ''/tmp/peerA.key'' host_key = (Inr (''PRIV'', ''PUB''), host_key)"
proof -
  have "''PUB'' \<noteq> []" by simp
  moreover have "files host_key ''/tmp/peerA.key'' = Some ''PRIV\<newline>''"
    by (simp add: host_eval)
  ultimately have "provision (Some ''PUB'') ''/tmp/peerA.key'' host_key
      = (Inr (strip ''PRIV\<newline>'', ''PUB''), host_key)"
    by (rule provision_reuse)
  then show ?thesis by (simp add: text_eval)
qed

section \<open>What the functions do when called as their parameters are named\<close>

lemma save_peers_snapshot:
  assumes "list_peers i w = (Inr ks, w1)" and "writable w1 f"
  shows "save_peers i f w = (Inr (), w1\<lparr>files := (files w1)(f \<mapsto> json_dumps ks)\<rparr>)"
  using assms by (simp add: save_peers_def bind_def write_file_def)

lemma add_peer_scenario:
  "fst (add_peer ''10.0.0.5'' ''/tmp/peerA.key'' ''wg0'' None None None host0) = Inr ()
   \<and> files (snd (add_peer ''10.0.0.5'' ''/tmp/peerA.key'' ''wg0'' None None None host0))
        ''/tmp/peerA.key'' = Some ''PRIV''
   \<and> ifaces (snd (add_peer ''10.0.0.5'' ''/tmp/peerA.key'' ''wg0'' None None None host0)) ''wg0''
        = Some [(''PUB'', ''10.0.0.5/24'')]"
  by (simp add: script_eval io_eval text_eval host_eval)

section \<open>Defects\<close>

text \<open>
  C1. The \<open>add\<close> command hands its four arguments to \<open>add_peer\<close> in the parser's order,
  which is not the order of \<open>add_peer\<close>'s parameters: the interface name arrives as the public
  key, so no key pair is generated. At the scenario of the specification, with an empty
  public key, address 10.0.0.5, key file /tmp/peerA.key and interface wg0, the command reads
  a file named 10.0.0.5, which does not exist, and ends with \<open>FileNotFoundError\<close>: no
  process was run, no file was written and \<open>wg0\<close> has no peer.
\<close>

theorem add_command_misplaces_arguments:
  "main (Add '''' ''10.0.0.5'' ''/tmp/peerA.key'' ''wg0'') host0 = (Inl FileNotFoundError, host0)
   \<and> exit_status (main (Add '''' ''10.0.0.5'' ''/tmp/peerA.key'' ''wg0'') host0) = 1
   \<and> files host0 ''/tmp/peerA.key'' = None
   \<and> ifaces host0 ''wg0'' = Some []
   \<and> cmd_log host0 = []"
  by (simp add: script_eval io_eval host_eval exit_status_def)

text \<open>
  C2. \<open>main\<close> has no branch for the \<open>save\<close> command: whatever the interface, the file
  and the host, the command returns without having queried the peers or written the file.
  On \<open>host2\<close>, where two peers are authorized, /tmp/peers.json still does not exist.
\<close>

theorem save_command_does_nothing:
  "main (Save i f) w = (Inr (), w)
   \<and> files (snd (main (Save ''wg0'' ''/tmp/peers.json'') host2)) ''/tmp/peers.json'' = None
   \<and> cmd_log (snd (main (Save ''wg0'' ''/tmp/peers.json'') host2)) = []"
  by (simp add: return_def host_eval)

text \<open>
  C3. The branch of \<open>main\<close> for the \<open>list\<close> command assigns the builtin \<open>list\<close> to a
  local variable: whatever the interface and the host, the command returns nothing and
  leaves the host as it was, without having queried the control surface. On \<open>host2\<close> two
  peers are authorized and no process is run.
\<close>

theorem list_command_does_nothing:
  "main (List i) w = (Inr (), w)
   \<and> ifaces host2 ''wg0'' = Some [(''PK1'', ''10.0.0.1/24''), (''PK2'', ''10.0.0.2/24'')]
   \<and> cmd_log (snd (main (List ''wg0'') host2)) = []"
  by (simp add: return_def host_eval)

text \<open>
  C5. Without a recipient, the text handed to the QR encoder has four lines: the endpoint
  line, which the branch with a recipient writes, is missing. Both branches hand to the
  encoder the text they rendered.
\<close>

theorem profile_without_recipient_has_four_lines:
  "qr_log (snd (add_peer ''10.0.0.5'' ''/tmp/peerA.key'' ''wg0'' None None None host0))
     = [''interface wg0\<newline>private_key PRIV\<newline>peer PUB\<newline>allowed_ips 10.0.0.5/32\<newline>'']
   \<and> qr_log (snd (add_peer ''10.0.0.5'' ''/tmp/peerA.key'' ''wg0'' None None
        (Some ''peer@example.org'') host0))
     = [''interface wg0\<newline>private_key PRIV\<newline>peer PUB\<newline>allowed_ips 10.0.0.5/32\<newline>endpoint <server_ip_address>:51820\<newline>'']
   \<and> qr_data_local wg_interface privkey pubkey ip_address @ ''endpoint <server_ip_address>:51820'' @ [nl]
     = qr_data_email wg_interface privkey pubkey ip_address"
  by (simp add: script_eval io_eval text_eval host_eval)

end
